theory Spec2Isabelle
  imports Complex_Main
begin

section \<open>Python values shared by the model\<close>

text \<open>
  The exceptions that the modelled methods of \<^verbatim>\<open>sent_matching_model.py\<close> can raise.
  \<open>UnboundLocalError v\<close> (a \<^verbatim>\<open>NameError\<close>) is the read of a local variable \<open>v\<close> of a
  function before any assignment to it.
\<close>

datatype py_error =
    UnboundLocalError string
  | TypeError
  | AssertionError
  | IOError
  | IndexError
  | ZeroDivisionError

subsection \<open>Byte strings\<close>

text \<open>
  \<^verbatim>\<open>str.lower()\<close> of Python 2 on a byte string: the letters \<open>A\<close> to \<open>Z\<close> (codes 65 to 90)
  move to \<open>a\<close> to \<open>z\<close>, every other byte stays.
\<close>

definition lower_char :: "char \<Rightarrow> char" where
  "lower_char c =
     (let n = (of_char c :: nat) in if 65 \<le> n \<and> n \<le> 90 then char_of (n + 32) else c)"

definition lower :: "string \<Rightarrow> string" where
  "lower s = map lower_char s"

text \<open>\<^verbatim>\<open>s.endswith(suf)\<close>.\<close>

definition endswith :: "string \<Rightarrow> string \<Rightarrow> bool" where
  "endswith s suf = (length suf \<le> length s \<and> drop (length s - length suf) s = suf)"

section \<open>The configuration\<close>

text \<open>
  The fields of \<^verbatim>\<open>args\<close> that the modelled methods read. \<open>args_save_model\<close> is
  \<^verbatim>\<open>args.save_model\<close> (the name \<open>save_model\<close> is the method's), \<open>None\<close> when no path is
  configured. \<^verbatim>\<open>order\<close> and \<^verbatim>\<open>mode\<close> are passed through to the constructors unread.
\<close>

record args =
  activation :: string
  hidden_dim :: int
  layer :: string
  depth :: int
  order :: int
  mode :: int
  outgate :: bool
  average :: bool
  normalize :: bool
  dropout :: real
  l2_reg :: real
  max_epoch :: int
  args_save_model :: "string option"
  load_pretrain :: string

text \<open>A configuration for the concrete runs below.\<close>

definition args0 :: args where
  "args0 =
     \<lparr>activation = ''tanh'', hidden_dim = 4, layer = ''rcnn'', depth = 1, order = 2,
      mode = 1, outgate = False, average = False, normalize = False, dropout = 0,
      l2_reg = 0, max_epoch = 20, args_save_model = None, load_pretrain = ''model.pkl.gz''\<rparr>"

section \<open>Model.save_model: the path of the checkpoint\<close>

text \<open>
  \<^verbatim>\<open>
  if not path.endswith(".pkl.gz"):
      path += ".gz" if path.endswith(".pkl") else ".pkl.gz"
  \<close>
\<close>

definition save_path :: "string \<Rightarrow> string" where
  "save_path path =
     (if \<not> endswith path ''.pkl.gz''
      then path @ (if endswith path ''.pkl'' then ''.gz'' else ''.pkl.gz'')
      else path)"

section \<open>BaseModel._output_layer and the prediction of BaseModel.compile\<close>

text \<open>
  A matrix is the list of its rows. \<^verbatim>\<open>T.nnet.sigmoid\<close> is the logistic function; the
  tensors are read as real numbers.
\<close>

type_synonym matrix = "real list list"

definition sigmoid :: "real \<Rightarrow> real" where
  "sigmoid z = 1 / (1 + exp (- z))"

text \<open>\<^verbatim>\<open>T.sum(a * b, axis=1)\<close> for one row of each operand.\<close>

definition row_dot :: "real list \<Rightarrow> real list \<Rightarrow> real" where
  "row_dot a b = sum_list (map (\<lambda>(x, y). x * y) (zip a b))"

text \<open>
  \<^verbatim>\<open>
  v = T.arange(h.shape[0] / 2)
  sent_1 = h[v * 2, :]
  sent_2 = h[(v + 1) * 2 - 1, :]
  return T.nnet.sigmoid(T.sum(sent_1 * sent_2, axis=1))
  \<close>
  The division of the integer shape is the floor division.
\<close>

definition arange :: "nat \<Rightarrow> nat list" where
  "arange n = [0..<n]"

definition sent_1 :: "matrix \<Rightarrow> matrix" where
  "sent_1 h = map (\<lambda>v. h ! (v * 2)) (arange (length h div 2))"

definition sent_2 :: "matrix \<Rightarrow> matrix" where
  "sent_2 h = map (\<lambda>v. h ! ((v + 1) * 2 - 1)) (arange (length h div 2))"

definition output_layer :: "matrix \<Rightarrow> real list" where
  "output_layer h = map (\<lambda>(a, b). sigmoid (row_dot a b)) (zip (sent_1 h) (sent_2 h))"

text \<open>\<^verbatim>\<open>self.y_pred = T.le(0.5, y_scores)\<close>: an integer vector of zeros and ones.\<close>

definition y_pred_of :: "real list \<Rightarrow> int list" where
  "y_pred_of y_scores = map (\<lambda>s. if 0.5 \<le> s then 1 else 0) y_scores"

section \<open>Model.set_cost\<close>

text \<open>
  A parameter tensor is the list of its entries. \<^verbatim>\<open>p.norm(2)\<close> is the square root of
  the sum of the squared entries.
\<close>

type_synonym tensor = "real list"

definition norm2 :: "tensor \<Rightarrow> real" where
  "norm2 p = sqrt (sum_list (map (\<lambda>x. \<bar>x\<bar> ^ 2) p))"

text \<open>
  \<^verbatim>\<open>
  l2_reg = None
  for p in params:
      if l2_reg is None:
          l2_reg = p.norm(2)
      else:
          l2_reg += p.norm(2)
  \<close>
\<close>

fun l2_loop :: "real option \<Rightarrow> tensor list \<Rightarrow> real option" where
  "l2_loop l2 [] = l2"
| "l2_loop l2 (p # ps) =
     l2_loop (case l2 of None \<Rightarrow> Some (norm2 p) | Some a \<Rightarrow> Some (a + norm2 p)) ps"

text \<open>
  \<^verbatim>\<open>return loss + l2_reg * args.l2_reg\<close>, for the parameter list \<open>ps\<close>; the local
  \<^verbatim>\<open>l2_reg\<close> is \<open>l2\<close> here. With no parameter it is still \<^verbatim>\<open>None\<close> and the product
  raises \<^verbatim>\<open>TypeError\<close>.
\<close>

definition set_cost :: "args \<Rightarrow> tensor list \<Rightarrow> real \<Rightarrow> py_error + real" where
  "set_cost args ps loss =
     (case l2_loop None ps of
        None \<Rightarrow> Inl TypeError
      | Some l2 \<Rightarrow> Inr (loss + l2 * l2_reg args))"

section \<open>BaseModel._set_layers\<close>

text \<open>
  The six encoder classes. A layer object is the record of the arguments its constructor
  was called with (\<open>None\<close> for a keyword that the call does not pass) and of its
  \<^verbatim>\<open>params\<close>. The constructors and \<^verbatim>\<open>get_activation_by_name\<close> live in other modules:
  the activation resolver and the initial parameters of the \<open>i\<close>-th constructed layer are
  parameters of the model.
\<close>

datatype layer_type = LSTM | GRU | GRNN | CNN | StrCNN | RCNN

record 'f layer_obj =
  cls :: layer_type
  n_in :: int
  n_out :: int
  act :: 'f
  kw_order :: "int option"
  kw_mode :: "int option"
  has_outgate :: "bool option"
  params :: "tensor list"

text \<open>
  \<^verbatim>\<open>
  if args.layer.lower() == "lstm":      layer_type = LSTM
  elif args.layer.lower() == "gru":     layer_type = GRU
  elif args.layer.lower() == "grnn":    layer_type = GRNN
  elif args.layer.lower() == "cnn":     layer_type = CNN
  elif args.layer.lower() == "str_cnn": layer_type = StrCNN
  else:                                 layer_type = RCNN
  \<close>
\<close>

definition select_layer_type :: "args \<Rightarrow> layer_type" where
  "select_layer_type args =
     (if lower (layer args) = ''lstm'' then LSTM
      else if lower (layer args) = ''gru'' then GRU
      else if lower (layer args) = ''grnn'' then GRNN
      else if lower (layer args) = ''cnn'' then CNN
      else if lower (layer args) = ''str_cnn'' then StrCNN
      else RCNN)"

text \<open>The body of the loop \<^verbatim>\<open>for i in range(args.depth)\<close>: the layer built at step \<open>i\<close>.\<close>

definition feature_layer ::
  "'f \<Rightarrow> (nat \<Rightarrow> tensor list) \<Rightarrow> args \<Rightarrow> int \<Rightarrow> int \<Rightarrow> layer_type \<Rightarrow> nat \<Rightarrow> 'f layer_obj" where
  "feature_layer activation_fn init args n_d n_e layer_type i =
     (if layer_type = CNN \<or> layer_type = StrCNN then
        \<lparr>cls = layer_type, n_in = (if i = 0 then n_e else n_d), n_out = n_d,
         act = activation_fn, kw_order = Some (order args), kw_mode = None,
         has_outgate = None, params = init i\<rparr>
      else if layer_type \<noteq> RCNN then
        \<lparr>cls = layer_type, n_in = (if i = 0 then n_e else n_d), n_out = n_d,
         act = activation_fn, kw_order = None, kw_mode = None,
         has_outgate = None, params = init i\<rparr>
      else
        \<lparr>cls = layer_type, n_in = (if i = 0 then n_e else n_d), n_out = n_d,
         act = activation_fn, kw_order = Some (order args), kw_mode = Some (mode args),
         has_outgate = Some (outgate args), params = init i\<rparr>)"

text \<open>
  \<open>set_layers\<close> is \<^verbatim>\<open>_set_layers\<close>: it appends one layer per step to \<^verbatim>\<open>self.layers\<close>
  (the last argument) and returns the new list. \<^verbatim>\<open>range\<close> of a negative depth is empty.
\<close>

definition set_layers ::
  "(string \<Rightarrow> 'f) \<Rightarrow> (nat \<Rightarrow> tensor list) \<Rightarrow> args \<Rightarrow> int \<Rightarrow> int \<Rightarrow> 'f layer_obj list
     \<Rightarrow> 'f layer_obj list" where
  "set_layers get_activation_by_name init args n_d n_e layers =
     (let activation_fn = get_activation_by_name (activation args);
          layer_type = select_layer_type args
      in fold (\<lambda>i ls. ls @ [feature_layer activation_fn init args n_d n_e layer_type i])
           [0..<nat (depth args)] layers)"

section \<open>BaseModel._mid_layer\<close>

text \<open>
  \<^verbatim>\<open>compile\<close> builds a symbolic graph. Its nodes, as far as \<^verbatim>\<open>_mid_layer\<close> makes them:
  the input of the method, the output of a layer's \<^verbatim>\<open>forward_all\<close>, and the helpers
  \<^verbatim>\<open>normalize_3d\<close>, \<^verbatim>\<open>average_without_padding\<close>, the subscript \<^verbatim>\<open>h[-1]\<close>,
  \<^verbatim>\<open>apply_dropout\<close> and \<^verbatim>\<open>normalize_2d\<close>.
\<close>

datatype 'f graph =
    Input string
  | Forward_all "'f layer_obj" "'f graph"
  | Normalize_3d "'f graph"
  | Average_without_padding "'f graph" "'f graph" int
  | Last_step "'f graph"
  | Apply_dropout "'f graph"
  | Normalize_2d "'f graph"

text \<open>
  \<^verbatim>\<open>
  for i in range(args.depth):
      h = self.layers[i].forward_all(h_prev)
      h_prev = h
  \<close>
  The state of the loop is the pair of \<^verbatim>\<open>h\<close> (\<open>None\<close> while unbound) and \<^verbatim>\<open>h_prev\<close>.
\<close>

fun mid_loop ::
  "'f layer_obj list \<Rightarrow> nat list \<Rightarrow> 'f graph option \<times> 'f graph
     \<Rightarrow> py_error + ('f graph option \<times> 'f graph)" where
  "mid_loop layers [] s = Inr s"
| "mid_loop layers (i # is) (h, h_prev) =
     (if i < length layers
      then mid_loop layers is
             (Some (Forward_all (layers ! i) h_prev), Forward_all (layers ! i) h_prev)
      else Inl IndexError)"

text \<open>
  \<^verbatim>\<open>
  if args.normalize:
      h = normalize_3d(h)
  if args.average or args.layer == "cnn" or args.layer == "str_cnn":
      h = average_without_padding(h, x, pad_id)
  else:
      h = h[-1]
  h = apply_dropout(h, self.dropout)
  if args.normalize:
      h = normalize_2d(h)
  return h
  \<close>
\<close>

definition pool :: "args \<Rightarrow> 'f graph \<Rightarrow> 'f graph \<Rightarrow> int \<Rightarrow> 'f graph" where
  "pool args h x pad_id =
     (if average args \<or> layer args = ''cnn'' \<or> layer args = ''str_cnn''
      then Average_without_padding h x pad_id
      else Last_step h)"

definition mid_layer ::
  "args \<Rightarrow> 'f layer_obj list \<Rightarrow> 'f graph \<Rightarrow> 'f graph \<Rightarrow> int \<Rightarrow> py_error + 'f graph" where
  "mid_layer args layers h_prev x pad_id =
     (case mid_loop layers [0..<nat (depth args)] (None, h_prev) of
        Inl e \<Rightarrow> Inl e
      | Inr (None, _) \<Rightarrow> Inl (UnboundLocalError ''h'')
      | Inr (Some h, _) \<Rightarrow>
          (let h1 = (if normalize args then Normalize_3d h else h);
               h2 = pool args h1 x pad_id;
               h3 = Apply_dropout h2
           in Inr (if normalize args then Normalize_2d h3 else h3)))"

section \<open>Checkpoints: Model.save_model and Model.load_pretrained_parameters\<close>

text \<open>
  The pickled dictionary \<^verbatim>\<open>{"args": args, "d": args.hidden_dim, "params": params}\<close>, with
  one entry of \<^verbatim>\<open>params\<close> per layer. The file system maps a path to the checkpoint
  stored there.
\<close>

record checkpoint =
  ck_args :: args
  ck_d :: int
  ck_params :: "tensor list list"

type_synonym filesystem = "string \<rightharpoonup> checkpoint"

text \<open>
  \<^verbatim>\<open>
  params = [x.params for x in self.layers]
  with gzip.open(path, "w") as fout:
      pickle.dump({"args": args, "d": args.hidden_dim, "params": params}, fout, ...)
  \<close>
  after the path has been normalised by \<open>save_path\<close>.
\<close>

definition save_model :: "args \<Rightarrow> 'f layer_obj list \<Rightarrow> string \<Rightarrow> filesystem \<Rightarrow> filesystem" where
  "save_model args layers path fs =
     fs(save_path path \<mapsto>
        \<lparr>ck_args = args, ck_d = hidden_dim args, ck_params = map params layers\<rparr>)"

text \<open>
  \<^verbatim>\<open>
  for l, p in zip(self.layers, data["params"]):
      l.params = p
  \<close>
  \<^verbatim>\<open>zip\<close> stops at the shorter list: a layer without a snapshot keeps its parameters.
\<close>

fun assign_params :: "'f layer_obj list \<Rightarrow> tensor list list \<Rightarrow> 'f layer_obj list" where
  "assign_params (l # ls) (p # ps) = l\<lparr>params := p\<rparr> # assign_params ls ps"
| "assign_params ls [] = ls"
| "assign_params [] ps = []"

text \<open>
  \<^verbatim>\<open>
  with gzip.open(args.load_pretrain) as fin:
      data = pickle.load(fin)
      assert args.hidden_dim == data["d"]
      for l, p in zip(self.layers, data["params"]): ...
  \<close>
  The result is the exception raised, if any, and \<^verbatim>\<open>self.layers\<close> afterwards.
\<close>

definition load_pretrained_parameters ::
  "filesystem \<Rightarrow> args \<Rightarrow> 'f layer_obj list \<Rightarrow> py_error option \<times> 'f layer_obj list" where
  "load_pretrained_parameters fs args layers =
     (case fs (load_pretrain args) of
        None \<Rightarrow> (Some IOError, layers)
      | Some data \<Rightarrow>
          if hidden_dim args \<noteq> ck_d data then (Some AssertionError, layers)
          else (None, assign_params layers (ck_params data)))"

section \<open>Model.evaluate\<close>

text \<open>
  A sample is the pair of its inputs \<^verbatim>\<open>sample[:-1]\<close> and its labels \<^verbatim>\<open>sample[-1]\<close>. The
  compiled functions, the random generator and the shared variables (the parameters, the
  dropout probability) belong to Theano and NumPy: they are a state \<open>'w\<close> that every
  call reads and may change, and the calls themselves are the fields of an environment.
  \<open>layers_now\<close> reads \<^verbatim>\<open>self.layers\<close> with the current parameters.
\<close>

datatype pyfloat = NaN | Float real


record step_out =
  cur_cost :: pyfloat
  cur_loss :: pyfloat
  grad_norm :: pyfloat
  y_pred :: "int list"

type_synonym 'x sample = "'x \<times> real list"

record ('w, 'x, 'f) env =
  train_func :: "'x \<Rightarrow> real list \<Rightarrow> 'w \<Rightarrow> step_out \<times> 'w"
  eval_func :: "'x \<Rightarrow> 'w \<Rightarrow> int list \<times> 'w"
  shuffle :: "nat list \<Rightarrow> 'w \<Rightarrow> nat list \<times> 'w"
  set_dropout :: "real \<Rightarrow> 'w \<Rightarrow> 'w"
  layers_now :: "'w \<Rightarrow> 'f layer_obj list"

text \<open>\<^verbatim>\<open>len([1 for s1, s2 in zip(y, y_pred) if s1 == s2])\<close>\<close>

definition n_correct :: "real list \<Rightarrow> int list \<Rightarrow> nat" where
  "n_correct ys preds = length (filter (\<lambda>(s1, s2). s1 = real_of_int s2) (zip ys preds))"

text \<open>
  \<^verbatim>\<open>
  for sample in samples:
      y_pred = eval_func(*sample[:-1])
      y = sample[-1]
      crr += len([...])
      ttl += len(y_pred)
  return crr / ttl
  \<close>
  The counters hold whole numbers; the quotient of two Python floats raises
  \<^verbatim>\<open>ZeroDivisionError\<close> when \<^verbatim>\<open>ttl\<close> is zero.
\<close>

fun eval_loop ::
  "('w, 'x, 'f) env \<Rightarrow> 'x sample list \<Rightarrow> nat \<times> nat \<times> 'w \<Rightarrow> nat \<times> nat \<times> 'w" where
  "eval_loop env [] s = s"
| "eval_loop env ((x, ys) # samples) (crr, ttl, w) =
     (let (preds, w') = eval_func env x w
      in eval_loop env samples (crr + n_correct ys preds, ttl + length preds, w'))"

definition evaluate ::
  "('w, 'x, 'f) env \<Rightarrow> 'x sample list \<Rightarrow> 'w \<Rightarrow> (py_error + real) \<times> 'w" where
  "evaluate env samples w =
     (let (crr, ttl, w') = eval_loop env samples (0, 0, w)
      in if ttl = 0 then (Inl ZeroDivisionError, w') else (Inr (real crr / real ttl), w'))"

section \<open>Model.train\<close>


text \<open>
  What a run does, in order: the shuffle of an epoch, each call of \<^verbatim>\<open>train_func\<close> (epoch,
  position \<^verbatim>\<open>i\<close>, sample index \<^verbatim>\<open>index\<close>, and whether the loss it returned is NaN), each
  \<^verbatim>\<open>self.dropout.set_value\<close>, and the messages given to \<^verbatim>\<open>say\<close>. The running sums of
  cost and loss, the gradient norm and the clock only feed the text of the epoch message
  and are left out of it here.
\<close>

datatype event =
    Shuffled nat
  | Train_step nat nat nat bool
  | Say_nan nat
  | Say_progress nat nat
  | Set_dropout real
  | Say_epoch nat real real
  | Say_train_accuracy nat nat
  | Say_p_norm



text \<open>
  The variables that live across the epochs: the locals \<^verbatim>\<open>unchanged\<close>, \<^verbatim>\<open>best_acc\<close>,
  \<^verbatim>\<open>batch_indices\<close>, \<^verbatim>\<open>dev_acc\<close>, \<^verbatim>\<open>test_acc\<close> and \<^verbatim>\<open>i\<close> (\<open>None\<close> while unbound), the
  state of Theano and NumPy, and the files written by \<^verbatim>\<open>save_model\<close>.
\<close>

record 'w train_state =
  unchanged :: int
  best_acc :: real
  batch_indices :: "nat list"
  dev_acc :: "real option"
  test_acc :: "real option"
  loop_i :: "nat option"
  world :: 'w
  files :: filesystem

text \<open>
  \<^verbatim>\<open>
  if dev_samples is not None:
      dev_acc = self.evaluate(dev_samples, eval_func)
  \<close>
  and the same for the test samples: the accuracy, if there are samples, else nothing.
\<close>

definition evaluate_if_given ::
  "('w, 'x, 'f) env \<Rightarrow> 'x sample list option \<Rightarrow> 'w \<Rightarrow> (py_error + real option) \<times> 'w" where
  "evaluate_if_given env samples w =
     (case samples of
        None \<Rightarrow> (Inr None, w)
      | Some s \<Rightarrow>
          (case evaluate env s w of
             (Inl e, w') \<Rightarrow> (Inl e, w')
           | (Inr a, w') \<Rightarrow> (Inr (Some a), w')))"

text \<open>
  \<^verbatim>\<open>
  if dev_acc > best_acc:
      unchanged = 0
      best_acc = dev_acc
      if args.save_model:
          self.save_model(args.save_model)
  \<close>
  for a bound \<^verbatim>\<open>dev_acc\<close>. An empty path is false, as \<^verbatim>\<open>None\<close> is.
\<close>

definition keep_best ::
  "('w, 'x, 'f) env \<Rightarrow> args \<Rightarrow> real \<Rightarrow> 'w train_state \<Rightarrow> 'w train_state" where
  "keep_best env args a st =
     (if best_acc st < a
      then st\<lparr>unchanged := 0, best_acc := a,
              files := (case args_save_model args of
                          None \<Rightarrow> files st
                        | Some path \<Rightarrow>
                            if path = [] then files st
                            else save_model args (layers_now env (world st)) path (files st))\<rparr>
      else st)"





subsection \<open>Reading a run\<close>

text \<open>
  The dev accuracies of the epoch messages, in order; the epochs whose training pass
  started; and whether an event is a call of \<^verbatim>\<open>train_func\<close> that returned a NaN loss.
\<close>

definition dev_history :: "event list \<Rightarrow> real list" where
  "dev_history evs = concat (map (\<lambda>ev. case ev of Say_epoch e a b \<Rightarrow> [a] | _ \<Rightarrow> []) evs)"

definition trained_epochs :: "event list \<Rightarrow> nat list" where
  "trained_epochs evs = concat (map (\<lambda>ev. case ev of Shuffled e \<Rightarrow> [e] | _ \<Rightarrow> []) evs)"

definition is_nan_step :: "event \<Rightarrow> bool" where
  "is_nan_step ev = (case ev of Train_step e i index b \<Rightarrow> b | _ \<Rightarrow> False)"



subsection \<open>A concrete environment\<close>


section \<open>Facts about byte strings\<close>

lemma endswith_iff: "endswith s suf \<longleftrightarrow> (\<exists>pre. s = pre @ suf)"
proof
  assume "endswith s suf"
  then have "s = take (length s - length suf) s @ suf"
    by (metis append_take_drop_id endswith_def)
  then show "\<exists>pre. s = pre @ suf" ..
next
  assume "\<exists>pre. s = pre @ suf"
  then show "endswith s suf" by (auto simp: endswith_def)
qed

lemma endswith_pkl_gz: "endswith p ''.pkl'' \<Longrightarrow> endswith (p @ ''.gz'') ''.pkl.gz''"
  by (auto simp: endswith_iff)

lemma endswith_append_self: "endswith (p @ suf) suf"
  by (simp add: endswith_def)

lemma pkl_not_pkl_gz: "endswith p ''.pkl'' \<Longrightarrow> \<not> endswith p ''.pkl.gz''"
  by (auto simp: endswith_iff)

section \<open>The checkpoint path\<close>

text \<open>
  C4, as stated, at the path \<open>m.gz\<close>: the path ends in \<open>.gz\<close> alone, and the claim has
  only the missing half \<open>.pkl\<close> added to it. The code appends the whole compound suffix:
  the result is \<open>m.gz.pkl.gz\<close>, which is neither the path with one half appended nor
  the name \<open>m\<close> completed to \<open>m.pkl.gz\<close>.
\<close>

theorem save_path_gz_counterexample:
  "endswith ''m.gz'' ''.gz'' \<and> \<not> endswith ''m.gz'' ''.pkl.gz'' \<and>
   save_path ''m.gz'' = ''m.gz.pkl.gz'' \<and>
   save_path ''m.gz'' \<noteq> ''m.gz'' @ ''.pkl'' \<and>
   save_path ''m.gz'' \<noteq> ''m.pkl.gz''"
  by (simp add: save_path_def endswith_def)

text \<open>
  C4, amended: for every path, \<open>save_model\<close> writes to a path that ends in \<open>.pkl.gz\<close>.
  A path that already ends in \<open>.pkl.gz\<close> is used unchanged; a path that ends in \<open>.pkl\<close>
  has \<open>.gz\<close> appended; every other path, one that ends in \<open>.gz\<close> alone included, has
  the whole suffix \<open>.pkl.gz\<close> appended.
\<close>

theorem save_path_canonical:
  "endswith (save_path p) ''.pkl.gz'' \<and>
   (endswith p ''.pkl.gz'' \<longrightarrow> save_path p = p) \<and>
   (endswith p ''.pkl'' \<longrightarrow> save_path p = p @ ''.gz'') \<and>
   (\<not> endswith p ''.pkl.gz'' \<and> \<not> endswith p ''.pkl'' \<longrightarrow> save_path p = p @ ''.pkl.gz'')"
  using endswith_pkl_gz [of p] endswith_append_self [of p "''.pkl.gz''"] pkl_not_pkl_gz [of p]
  by (simp add: save_path_def)

theorem save_path_canonical_witness:
  "endswith ''a.pkl.gz'' ''.pkl.gz'' \<and> save_path ''a.pkl.gz'' = ''a.pkl.gz'' \<and>
   endswith ''a.pkl'' ''.pkl'' \<and> save_path ''a.pkl'' = ''a.pkl.gz'' \<and>
   \<not> endswith ''a.gz'' ''.pkl.gz'' \<and> \<not> endswith ''a.gz'' ''.pkl'' \<and>
   save_path ''a.gz'' = ''a.gz.pkl.gz''"
  using save_path_canonical [of "''a.pkl.gz''"] save_path_canonical [of "''a.pkl''"]
    save_path_canonical [of "''a.gz''"]
  by (simp add: endswith_def)

section \<open>Facts about the score head\<close>

lemma row_dot_sum_len:
  "length a = length b \<Longrightarrow> row_dot a b = (\<Sum>j<length a. a ! j * b ! j)"
proof (induction a b rule: list_induct2)
  case Nil
  show ?case by (simp add: row_dot_def)
next
  case (Cons x xs y ys)
  then show ?case by (simp add: row_dot_def sum.lessThan_Suc_shift del: sum.lessThan_Suc)
qed

lemma row_dot_sum: "length a = d \<Longrightarrow> length b = d \<Longrightarrow> row_dot a b = (\<Sum>j<d. a ! j * b ! j)"
  using row_dot_sum_len [of a b] by simp

lemma row_dot_commute: "row_dot a b = row_dot b a"
proof -
  have "zip b a = map (\<lambda>(x, y). (y, x)) (zip a b)" by (rule zip_commute)
  then show ?thesis
    unfolding row_dot_def by (simp add: comp_def case_prod_unfold mult.commute)
qed

lemma sigmoid_zero: "sigmoid 0 = 1 / 2"
  by (simp add: sigmoid_def)

lemma length_output_layer: "length (output_layer h) = length h div 2"
  by (simp add: output_layer_def sent_1_def sent_2_def arange_def)

lemma output_layer_nth:
  "i < length h div 2 \<Longrightarrow>
   output_layer h ! i = sigmoid (row_dot (h ! (2 * i)) (h ! (2 * i + 1)))"
  by (simp add: output_layer_def sent_1_def sent_2_def arange_def mult.commute)

lemma y_pred_nth:
  "i < length s \<Longrightarrow> y_pred_of s ! i = (if 0.5 \<le> s ! i then 1 else 0)"
  by (simp add: y_pred_of_def)

text \<open>
  C6: for a pooled representation \<open>h\<close> of \<open>2 * n\<close> rows of width \<open>d\<close> and a pair
  \<open>i < n\<close>, there are \<open>n\<close> scores; the two operands of pair \<open>i\<close> are the rows \<open>2 * i\<close> and
  \<open>2 * i + 1\<close> of \<open>h\<close>, both in range; the score is the sigmoid of the sum over the
  feature dimensions of their elementwise product; it depends on no other row; and the
  prediction is 1 exactly when the score is at least 0.5, 0 otherwise, so that a score of
  exactly 0.5 is predicted as a match.
\<close>

theorem output_layer_pairs:
  assumes len: "length h = 2 * n" and i: "i < n"
    and rows: "\<forall>r\<in>set h. length r = d"
  shows "length (output_layer h) = n \<and>
         2 * i + 1 < length h \<and>
         sent_1 h ! i = h ! (2 * i) \<and> sent_2 h ! i = h ! (2 * i + 1) \<and>
         output_layer h ! i = sigmoid (\<Sum>j<d. h ! (2 * i) ! j * h ! (2 * i + 1) ! j) \<and>
         (y_pred_of (output_layer h) ! i = 1 \<longleftrightarrow> 0.5 \<le> output_layer h ! i) \<and>
         (y_pred_of (output_layer h) ! i = 0 \<longleftrightarrow> \<not> 0.5 \<le> output_layer h ! i) \<and>
         (output_layer h ! i = 0.5 \<longrightarrow> y_pred_of (output_layer h) ! i = 1) \<and>
         (\<forall>h'. length h' = length h \<and> h' ! (2 * i) = h ! (2 * i) \<and>
               h' ! (2 * i + 1) = h ! (2 * i + 1) \<longrightarrow>
               output_layer h' ! i = output_layer h ! i)"
proof -
  have i2: "i < length h div 2" using len i by simp
  have r1: "2 * i < length h" and r2: "2 * i + 1 < length h" using len i by auto
  have l1: "length (h ! (2 * i)) = d" using rows r1 nth_mem by blast
  have l2: "length (h ! (2 * i + 1)) = d" using rows r2 nth_mem by blast
  have n: "length (output_layer h) = n" using len by (simp add: length_output_layer)
  have s1: "sent_1 h ! i = h ! (2 * i)" using i2 by (simp add: sent_1_def arange_def mult.commute)
  have s2: "sent_2 h ! i = h ! (2 * i + 1)" using i2 by (simp add: sent_2_def arange_def mult.commute)
  have sc: "output_layer h ! i = sigmoid (\<Sum>j<d. h ! (2 * i) ! j * h ! (2 * i + 1) ! j)"
    using output_layer_nth [OF i2] row_dot_sum [OF l1 l2] by simp
  have p: "y_pred_of (output_layer h) ! i = (if 0.5 \<le> output_layer h ! i then 1 else 0)"
    using y_pred_nth [of i "output_layer h"] n i by simp
  have ind: "\<forall>h'. length h' = length h \<and> h' ! (2 * i) = h ! (2 * i) \<and>
               h' ! (2 * i + 1) = h ! (2 * i + 1) \<longrightarrow>
               output_layer h' ! i = output_layer h ! i"
    using i2 by (simp add: output_layer_nth)
  have p1: "y_pred_of (output_layer h) ! i = 1 \<longleftrightarrow> 0.5 \<le> output_layer h ! i"
    by (simp add: p)
  have p0: "y_pred_of (output_layer h) ! i = 0 \<longleftrightarrow> \<not> 0.5 \<le> output_layer h ! i"
    by (simp add: p)
  have ph: "output_layer h ! i = 0.5 \<longrightarrow> y_pred_of (output_layer h) ! i = 1"
    by (simp add: p)
  show ?thesis
    by (intro conjI) (rule n r2 s1 s2 sc p1 p0 ph ind)+
qed

theorem output_layer_pairs_witness:
  "output_layer [[1, 2], [3, -1], [0, 0], [5, 7]] ! 1 = sigmoid 0 \<and>
   y_pred_of (output_layer [[1, 2], [3, -1], [0, 0], [5, 7]]) ! 1 = 1"
proof -
  let ?h = "[[1, 2], [3, -1], [0, 0], [5, 7 :: real]]"
  have a: "length ?h = 2 * 2" by simp
  have b: "(1::nat) < 2" by simp
  have c: "\<forall>r\<in>set ?h. length r = 2" by simp
  have s: "(\<Sum>j<2. ?h ! (2 * 1) ! j * ?h ! (2 * 1 + 1) ! j) = (0::real)"
    by (simp add: lessThan_Suc numeral_2_eq_2)
  from output_layer_pairs [OF a b c]
  have e1: "output_layer ?h ! 1 = sigmoid (\<Sum>j<2. ?h ! (2 * 1) ! j * ?h ! (2 * 1 + 1) ! j)"
    and e2: "output_layer ?h ! 1 = 0.5 \<longrightarrow> y_pred_of (output_layer ?h) ! 1 = 1"
    by blast+
  have e3: "output_layer ?h ! 1 = sigmoid 0" using e1 s by simp
  then have "output_layer ?h ! 1 = 0.5" by (simp add: sigmoid_zero)
  with e2 e3 show ?thesis by blast
qed

text \<open>
  C7: for a pooled representation of \<open>2 * n\<close> rows and a pair \<open>i < n\<close>, exchanging the
  rows \<open>2 * i\<close> and \<open>2 * i + 1\<close> leaves the whole score vector unchanged: the score of
  pair \<open>i\<close> and the score of every other pair.
\<close>

theorem output_layer_swap:
  assumes len: "length h = 2 * n" and i: "i < n"
  shows "output_layer (h[2 * i := h ! (2 * i + 1), 2 * i + 1 := h ! (2 * i)]) = output_layer h"
proof (rule nth_equalityI)
  let ?h = "h[2 * i := h ! (2 * i + 1), 2 * i + 1 := h ! (2 * i)]"
  show "length (output_layer ?h) = length (output_layer h)"
    by (simp only: length_output_layer length_list_update)
  fix k assume "k < length (output_layer ?h)"
  then have k: "k < length h div 2" by (simp only: length_output_layer length_list_update)
  have lh: "length ?h = length h" by (simp only: length_list_update)
  have k': "k < length ?h div 2" using k lh by simp
  have r: "2 * i + 1 < length h" using len i by linarith
  have r0: "2 * i < length h" using r by linarith
  show "output_layer ?h ! k = output_layer h ! k"
  proof (cases "k = i")
    case True
    have a: "?h ! (2 * i) = h ! (2 * i + 1)"
      using r0 by (simp add: nth_list_update)
    have b: "?h ! (2 * i + 1) = h ! (2 * i)"
      using r by (simp add: nth_list_update)
    have "output_layer ?h ! i = sigmoid (row_dot (h ! (2 * i + 1)) (h ! (2 * i)))"
      using output_layer_nth [OF k'] True a b by simp
    also have "\<dots> = sigmoid (row_dot (h ! (2 * i)) (h ! (2 * i + 1)))"
      by (simp only: row_dot_commute)
    also have "\<dots> = output_layer h ! i"
      using output_layer_nth [OF k] True by simp
    finally show ?thesis using True by simp
  next
    case False
    have n1: "2 * k \<noteq> 2 * i" using False by simp
    have n2: "2 * k \<noteq> 2 * i + 1" by presburger
    have n3: "2 * k + 1 \<noteq> 2 * i" by presburger
    have n4: "2 * k + 1 \<noteq> 2 * i + 1" using False by simp
    have a: "?h ! (2 * k) = h ! (2 * k)"
      using n1 n2 by (simp add: nth_list_update)
    have b: "?h ! (2 * k + 1) = h ! (2 * k + 1)"
      using n3 n4 by (simp add: nth_list_update)
    show ?thesis
      using output_layer_nth [OF k] output_layer_nth [OF k'] a b by simp
  qed
qed

theorem output_layer_swap_witness:
  "output_layer [[3, -1], [1, 2], [0, 0], [5, 7]] = output_layer [[1, 2], [3, -1], [0, 0], [5, 7]]"
proof -
  let ?h = "[[1, 2], [3, -1], [0, 0], [5, 7 :: real]]"
  have a: "length ?h = 2 * 2" by simp
  have b: "(0::nat) < 2" by simp
  from output_layer_swap [OF a b] show ?thesis by simp
qed

section \<open>The cost\<close>

lemma l2_loop_Some: "l2_loop (Some a) ps = Some (a + sum_list (map norm2 ps))"
  by (induction ps arbitrary: a) (simp_all add: add.assoc)

lemma l2_loop_None:
  "l2_loop None ps = (if ps = [] then None else Some (sum_list (map norm2 ps)))"
  by (cases ps) (simp_all add: l2_loop_Some)

lemma norm2_3_4: "norm2 [3, 4] = 5"
proof -
  have "norm2 [3, 4] = sqrt (5 ^ 2)" by (simp add: norm2_def)
  also have "\<dots> = 5" by simp
  finally show ?thesis .
qed

text \<open>
  C3, as stated, at the empty parameter set: \<open>set_cost\<close> does not return the loss plus
  the (empty) penalty there, it raises \<open>TypeError\<close>, also when \<open>l2_reg\<close> is 0.
\<close>

theorem set_cost_empty_counterexample:
  "set_cost (args0\<lparr>l2_reg := 0\<rparr>) [] 1 = Inl TypeError \<and>
   set_cost (args0\<lparr>l2_reg := 0\<rparr>) [] 1 \<noteq> Inr (1 + 0 * sum_list (map norm2 []))"
  by (simp add: set_cost_def)

text \<open>
  C3, amended: for every non-empty parameter set and every loss, \<open>set_cost\<close> returns
  the loss plus \<open>l2_reg\<close> times the sum, over every parameter tensor, of its L2 norm (the
  square root of the sum of the squared entries, not the squared norm); so with
  \<open>l2_reg = 0\<close> the cost is the loss exactly.
\<close>

theorem set_cost_l2:
  assumes "ps \<noteq> []"
  shows "set_cost args ps loss = Inr (loss + l2_reg args * sum_list (map norm2 ps)) \<and>
         (\<forall>p\<in>set ps. norm2 p = sqrt (\<Sum>x\<leftarrow>p. x ^ 2)) \<and>
         (l2_reg args = 0 \<longrightarrow> set_cost args ps loss = Inr loss)"
  using assms by (simp add: set_cost_def l2_loop_None norm2_def mult.commute)

theorem set_cost_l2_witness:
  "set_cost (args0\<lparr>l2_reg := 1 / 2\<rparr>) [[3, 4], [0]] 1 = Inr (7 / 2) \<and>
   set_cost (args0\<lparr>l2_reg := 0\<rparr>) [[3, 4], [0]] 1 = Inr 1"
proof -
  have ne: "[[3, 4], [0 :: real]] \<noteq> []" by simp
  have z: "norm2 [0] = 0" by (simp add: norm2_def)
  from set_cost_l2 [OF ne, of "args0\<lparr>l2_reg := 1 / 2\<rparr>" 1]
    set_cost_l2 [OF ne, of "args0\<lparr>l2_reg := 0\<rparr>" 1]
  show ?thesis by (simp add: norm2_3_4 z)
qed

section \<open>The layer stack\<close>

lemma fold_snoc_map: "fold (\<lambda>i ls. ls @ [f i]) js ls = ls @ map f js"
  by (induction js arbitrary: ls) simp_all

lemma select_layer_type_fallback:
  "lower (layer args) \<notin> {''lstm'', ''gru'', ''grnn'', ''cnn'', ''str_cnn''}
   \<Longrightarrow> select_layer_type args = RCNN"
  by (simp add: select_layer_type_def)

text \<open>
  C9: for every configuration whose lower-cased layer name is none of \<open>lstm\<close>, \<open>gru\<close>,
  \<open>grnn\<close>, \<open>cnn\<close>, \<open>str_cnn\<close>, \<open>_set_layers\<close> returns normally and appends, for each
  \<open>i\<close> below the depth, an \<open>RCNN\<close> built with the configured \<open>order\<close>, \<open>mode\<close> and \<open>outgate\<close>
  (input width \<open>n_e\<close> for layer 0, \<open>n_d\<close> for the others).
\<close>

theorem set_layers_fallback:
  assumes "lower (layer args) \<notin> {''lstm'', ''gru'', ''grnn'', ''cnn'', ''str_cnn''}"
  shows "set_layers get_activation_by_name init args n_d n_e ls =
           ls @ map (\<lambda>i. \<lparr>cls = RCNN, n_in = (if i = 0 then n_e else n_d), n_out = n_d,
                          act = get_activation_by_name (activation args),
                          kw_order = Some (order args), kw_mode = Some (mode args),
                          has_outgate = Some (outgate args), params = init i\<rparr>)
                  [0..<nat (depth args)]"
  using select_layer_type_fallback [OF assms]
  by (simp add: set_layers_def fold_snoc_map feature_layer_def)

lemma lower_ex: "lower ''BiLSTM'' = ''bilstm''"
  by code_simp

theorem set_layers_fallback_witness:
  "lower (layer (args0\<lparr>layer := ''BiLSTM'', depth := 2\<rparr>))
     \<notin> {''lstm'', ''gru'', ''grnn'', ''cnn'', ''str_cnn''} \<and>
   set_layers (\<lambda>s. s) (\<lambda>i. []) (args0\<lparr>layer := ''BiLSTM'', depth := 2\<rparr>) 4 3 [] =
     [\<lparr>cls = RCNN, n_in = 3, n_out = 4, act = ''tanh'', kw_order = Some 2, kw_mode = Some 1,
       has_outgate = Some False, params = []\<rparr>,
      \<lparr>cls = RCNN, n_in = 4, n_out = 4, act = ''tanh'', kw_order = Some 2, kw_mode = Some 1,
       has_outgate = Some False, params = []\<rparr>]"
proof -
  let ?a = "args0\<lparr>layer := ''BiLSTM'', depth := 2\<rparr>"
  have h: "lower (layer ?a) \<notin> {''lstm'', ''gru'', ''grnn'', ''cnn'', ''str_cnn''}"
    by (simp add: lower_ex)
  have u: "[0..<nat (depth ?a)] = [0, 1]" by (simp add: upt_rec)
  from set_layers_fallback [OF h, of "\<lambda>s. s" "\<lambda>i. []" 4 3 "[]"] h u
  show ?thesis by (simp add: args0_def)
qed

section \<open>The pooling of the compiled graph\<close>

lemma lower_CNN: "lower ''CNN'' = ''cnn''"
  by code_simp

text \<open>
  C1 at the configuration \<open>layer = "CNN"\<close>, \<open>average = False\<close>, depth 1, no
  normalisation: \<open>_set_layers\<close> lower-cases the name and builds a \<open>CNN\<close> layer, but
  \<open>_mid_layer\<close> compares the name as written and takes the last time-step, where the
  configuration \<open>layer = "cnn"\<close> pools by \<open>average_without_padding\<close>.
\<close>

theorem mid_layer_uppercase_CNN:
  "select_layer_type (args0\<lparr>layer := ''CNN''\<rparr>) = CNN \<and>
   set_layers (\<lambda>s. s) (\<lambda>i. []) (args0\<lparr>layer := ''CNN''\<rparr>) 4 3 [] =
     [\<lparr>cls = CNN, n_in = 3, n_out = 4, act = ''tanh'', kw_order = Some 2, kw_mode = None,
       has_outgate = None, params = []\<rparr>] \<and>
   average (args0\<lparr>layer := ''CNN''\<rparr>) = False \<and>
   mid_layer (args0\<lparr>layer := ''CNN''\<rparr>)
       [\<lparr>cls = CNN, n_in = 3, n_out = 4, act = ''tanh'', kw_order = Some 2, kw_mode = None,
         has_outgate = None, params = []\<rparr>] (Input ''h_in'') (Input ''x'') 0 =
     Inr (Apply_dropout (Last_step (Forward_all
       \<lparr>cls = CNN, n_in = 3, n_out = 4, act = ''tanh'', kw_order = Some 2, kw_mode = None,
         has_outgate = None, params = []\<rparr> (Input ''h_in'')))) \<and>
   mid_layer (args0\<lparr>layer := ''cnn''\<rparr>)
       [\<lparr>cls = CNN, n_in = 3, n_out = 4, act = ''tanh'', kw_order = Some 2, kw_mode = None,
         has_outgate = None, params = []\<rparr>] (Input ''h_in'') (Input ''x'') 0 =
     Inr (Apply_dropout (Average_without_padding (Forward_all
       \<lparr>cls = CNN, n_in = 3, n_out = 4, act = ''tanh'', kw_order = Some 2, kw_mode = None,
         has_outgate = None, params = []\<rparr> (Input ''h_in'')) (Input ''x'') 0))"
  by (simp add: select_layer_type_def lower_CNN set_layers_def feature_layer_def
      mid_layer_def pool_def args0_def upt_rec)

section \<open>Loading a checkpoint\<close>

lemma length_assign_params: "length (assign_params ls ps) = length ls"
  by (induction ls ps rule: assign_params.induct) simp_all

lemma assign_params_nth:
  "i < length ls \<Longrightarrow>
   assign_params ls ps ! i = (if i < length ps then (ls ! i)\<lparr>params := ps ! i\<rparr> else ls ! i)"
proof (induction ls ps arbitrary: i rule: assign_params.induct)
  case (1 l ls p ps)
  then show ?case by (cases i) simp_all
qed simp_all

text \<open>
  C8: when the checkpoint file holds \<open>data\<close>, the equality of \<open>hidden_dim\<close> and the stored
  \<open>d\<close> is asserted before the loop over the layers. On a mismatch the call raises
  \<open>AssertionError\<close> and the layer list is the one it was given, every parameter
  unchanged. Otherwise it returns normally; the stack keeps its length, layer \<open>i\<close> has
  the \<open>i\<close>-th snapshot of the checkpoint as its parameters and all its other fields as
  before (nothing is matched by name), and a layer beyond the snapshots is unchanged.
\<close>

theorem load_pretrained_parameters_positional:
  assumes "fs (load_pretrain args) = Some data"
  shows "(hidden_dim args \<noteq> ck_d data \<longrightarrow>
            load_pretrained_parameters fs args layers = (Some AssertionError, layers)) \<and>
         (hidden_dim args = ck_d data \<longrightarrow>
            fst (load_pretrained_parameters fs args layers) = None \<and>
            length (snd (load_pretrained_parameters fs args layers)) = length layers \<and>
            (\<forall>i<length layers.
               snd (load_pretrained_parameters fs args layers) ! i =
                 (if i < length (ck_params data)
                  then (layers ! i)\<lparr>params := ck_params data ! i\<rparr>
                  else layers ! i)))"
  using assms
  by (simp add: load_pretrained_parameters_def length_assign_params assign_params_nth)

theorem load_pretrained_parameters_positional_witness:
  "load_pretrained_parameters
     [''model.pkl.gz'' \<mapsto> \<lparr>ck_args = args0, ck_d = 8, ck_params = [[[1]], [[2]]]\<rparr>] args0
     [\<lparr>cls = GRU, n_in = 3, n_out = 4, act = ''tanh'', kw_order = None, kw_mode = None,
       has_outgate = None, params = [[0]]\<rparr>] =
     (Some AssertionError,
      [\<lparr>cls = GRU, n_in = 3, n_out = 4, act = ''tanh'', kw_order = None, kw_mode = None,
        has_outgate = None, params = [[0]]\<rparr>]) \<and>
   snd (load_pretrained_parameters
     [''model.pkl.gz'' \<mapsto> \<lparr>ck_args = args0, ck_d = 4, ck_params = [[[1]], [[2]]]\<rparr>] args0
     [\<lparr>cls = GRU, n_in = 3, n_out = 4, act = ''tanh'', kw_order = None, kw_mode = None,
       has_outgate = None, params = [[0]]\<rparr>]) ! 0 =
     \<lparr>cls = GRU, n_in = 3, n_out = 4, act = ''tanh'', kw_order = None, kw_mode = None,
      has_outgate = None, params = [[1]]\<rparr>"
proof -
  let ?l = "\<lparr>cls = GRU, n_in = 3, n_out = 4, act = ''tanh'', kw_order = None, kw_mode = None,
             has_outgate = None, params = [[0::real]]\<rparr>"
  let ?c8 = "\<lparr>ck_args = args0, ck_d = 8, ck_params = [[[1]], [[2::real]]]\<rparr>"
  let ?c4 = "\<lparr>ck_args = args0, ck_d = 4, ck_params = [[[1]], [[2::real]]]\<rparr>"
  have f8: "[''model.pkl.gz'' \<mapsto> ?c8] (load_pretrain args0) = Some ?c8"
    by (simp add: args0_def)
  have f4: "[''model.pkl.gz'' \<mapsto> ?c4] (load_pretrain args0) = Some ?c4"
    by (simp add: args0_def)
  have h8: "hidden_dim args0 \<noteq> ck_d ?c8" by (simp add: args0_def)
  have h4: "hidden_dim args0 = ck_d ?c4" by (simp add: args0_def)
  from load_pretrained_parameters_positional
         [where fs = "[''model.pkl.gz'' \<mapsto> ?c8]" and args = args0 and data = ?c8
            and layers = "[?l]"] f8 h8
  have a: "load_pretrained_parameters [''model.pkl.gz'' \<mapsto> ?c8] args0 [?l]
             = (Some AssertionError, [?l])" by blast
  from load_pretrained_parameters_positional
         [where fs = "[''model.pkl.gz'' \<mapsto> ?c4]" and args = args0 and data = ?c4
            and layers = "[?l]"] f4 h4
  have "\<forall>i<length [?l]. snd (load_pretrained_parameters [''model.pkl.gz'' \<mapsto> ?c4] args0 [?l]) ! i =
          (if i < length (ck_params ?c4) then ([?l] ! i)\<lparr>params := ck_params ?c4 ! i\<rparr>
           else [?l] ! i)" by blast
  then have b: "snd (load_pretrained_parameters [''model.pkl.gz'' \<mapsto> ?c4] args0 [?l]) ! 0 =
          ?l\<lparr>params := [[1]]\<rparr>" by simp
  show ?thesis using a b by simp
qed

section \<open>The training loop\<close>

subsection \<open>Reading the events\<close>

lemma dev_history_simps [simp]:
  "dev_history [] = []"
  "dev_history (xs @ ys) = dev_history xs @ dev_history ys"
  "dev_history (Say_epoch e a b # evs) = a # dev_history evs"
  "dev_history (Shuffled e # evs) = dev_history evs"
  "dev_history (Train_step e i index f # evs) = dev_history evs"
  "dev_history (Say_nan i # evs) = dev_history evs"
  "dev_history (Say_progress i n # evs) = dev_history evs"
  "dev_history (Set_dropout p # evs) = dev_history evs"
  "dev_history (Say_train_accuracy c t # evs) = dev_history evs"
  "dev_history (Say_p_norm # evs) = dev_history evs"
  by (simp_all add: dev_history_def)

lemma trained_epochs_simps [simp]:
  "trained_epochs [] = []"
  "trained_epochs (xs @ ys) = trained_epochs xs @ trained_epochs ys"
  "trained_epochs (Shuffled e # evs) = e # trained_epochs evs"
  "trained_epochs (Say_epoch e a b # evs) = trained_epochs evs"
  "trained_epochs (Train_step e i index f # evs) = trained_epochs evs"
  "trained_epochs (Say_nan i # evs) = trained_epochs evs"
  "trained_epochs (Say_progress i n # evs) = trained_epochs evs"
  "trained_epochs (Set_dropout p # evs) = trained_epochs evs"
  "trained_epochs (Say_train_accuracy c t # evs) = trained_epochs evs"
  "trained_epochs (Say_p_norm # evs) = trained_epochs evs"
  by (simp_all add: trained_epochs_def)

lemma is_nan_step_simps [simp]:
  "is_nan_step (Train_step e i index f) = f"
  "\<not> is_nan_step (Shuffled e)"
  "\<not> is_nan_step (Say_nan i)"
  "\<not> is_nan_step (Say_progress i n)"
  "\<not> is_nan_step (Set_dropout p)"
  "\<not> is_nan_step (Say_epoch e a b)"
  "\<not> is_nan_step (Say_train_accuracy c t)"
  "\<not> is_nan_step Say_p_norm"
  by (simp_all add: is_nan_step_def)







subsection \<open>The end of an epoch\<close>




lemma evaluate_if_given_None:
  "evaluate_if_given env None w = (Inr None, w)"
  by (simp add: evaluate_if_given_def)

lemma keep_best_counter:
  "(best_acc st < a \<longrightarrow>
      unchanged (keep_best env args a st) = 0 \<and> best_acc (keep_best env args a st) = a) \<and>
   (\<not> best_acc st < a \<longrightarrow>
      unchanged (keep_best env args a st) = unchanged st \<and>
      best_acc (keep_best env args a st) = best_acc st)"
  by (simp add: keep_best_def)

lemma keep_best_fields:
  "loop_i (keep_best env args a st) = loop_i st"
  "world (keep_best env args a st) = world st"
  "dev_acc (keep_best env args a st) = dev_acc st"
  by (simp_all add: keep_best_def)







subsection \<open>One epoch\<close>








subsection \<open>The whole run\<close>











end
